theory Spec2Isabelle
  imports Main
begin

section \<open>Python values, exceptions and outcomes\<close>

text \<open>
  The exceptions the modelled code can raise. \<open>UserError\<close> stands for any exception
  raised by code the package calls but does not define (test bodies, cleanups, the
  operating system, the messaging library, the remote peer).
\<close>

datatype error =
    AttributeError string
  | RuntimeError string
  | AssertionError string
  | KeyError string
  | IndexError
  | ValueError string
  | UserError string

text \<open>
  The outcome of a call: it returns a value, raises, or never returns
  (\<open>Hang\<close>: a blocking receive on which no message ever arrives, a loop that
  does not end).
\<close>

datatype 'a result = Ok 'a | Raise error | Hang

datatype pyval = IntV int | StrV string

section \<open>common.py\<close>

definition SUCCESS :: int where "SUCCESS = 200"
definition INVALID_METHOD :: int where "INVALID_METHOD = 400"
definition UNHANDLED_ERROR :: int where "UNHANDLED_ERROR = 503"

definition ENV_CONFIGNAME :: string where "ENV_CONFIGNAME = ''DCCAUTO_CONFIGNAME''"
definition ENV_HANDSHAKE :: string where "ENV_HANDSHAKE = ''DCCAUTO_HANDSHAKE''"

text \<open>
  A module object is its namespace: the names bound at its top level, in the order of
  the assignments. \<open>common\<close> is the namespace that common.py builds.
\<close>

type_synonym module = "(string \<times> pyval) list"

definition common :: module where
  "common =
    [(''SUCCESS'', IntV SUCCESS),
     (''INVALID_METHOD'', IntV INVALID_METHOD),
     (''UNHANDLED_ERROR'', IntV UNHANDLED_ERROR),
     (''ENV_CONFIGNAME'', StrV ENV_CONFIGNAME),
     (''ENV_HANDSHAKE'', StrV ENV_HANDSHAKE)]"

text \<open>
  Attribute access \<open>m.name\<close> on a module is a lookup in its namespace when the
  statement runs, AttributeError when the name is not bound there. The functions of
  bootstrap.py read the module \<open>common\<close> this way, so they take the module as
  their first argument; the program is their instance at \<open>common\<close>.
\<close>

definition getattr :: "module \<Rightarrow> string \<Rightarrow> error + pyval" where
  "getattr m name =
     (case map_of m name of
        None \<Rightarrow> Inl (AttributeError name)
      | Some v \<Rightarrow> Inr v)"

text \<open>The integer-valued names of a module: for \<open>common\<close>, the status codes.\<close>

fun status_codes :: "module \<Rightarrow> (string \<times> int) list" where
  "status_codes [] = []"
| "status_codes ((n, IntV i) # m) = (n, i) # status_codes m"
| "status_codes ((n, StrV s) # m) = status_codes m"

section \<open>Strings\<close>

text \<open>\<open>sep.join(xs)\<close>.\<close>

fun join :: "string \<Rightarrow> string list \<Rightarrow> string" where
  "join sep [] = []"
| "join sep [x] = x"
| "join sep (x # y # ys) = x @ sep @ join sep (y # ys)"

text \<open>\<open>s.replace(a, b)\<close> for one-character \<open>a\<close> and \<open>b\<close>.\<close>

definition replace :: "char \<Rightarrow> char \<Rightarrow> string \<Rightarrow> string" where
  "replace a b s = map (\<lambda>c. if c = a then b else c) s"

text \<open>\<open>str(x)\<close> of a string or None.\<close>

definition str :: "string option \<Rightarrow> string" where
  "str x = (case x of None \<Rightarrow> ''None'' | Some s \<Rightarrow> s)"

definition newline :: string where "newline = [CHR 0x0A]"
definition dquote :: string where "dquote = [CHR 0x22]"

text \<open>
  \<open>template.format(*args, **kw)\<close> for the replacement fields the package uses:
  \<open>{}\<close> takes the next positional argument, \<open>{name}\<close> the keyword argument of
  that name, doubled braces are literal braces. A field with no closing brace or a
  single closing brace is a ValueError, a missing argument an IndexError or KeyError.
  Conversions, format specifications and attribute or index fields do not occur in the
  package's templates and are not modelled.
\<close>

definition prepend :: "string \<Rightarrow> error + string \<Rightarrow> error + string" where
  "prepend s r = (case r of Inl e \<Rightarrow> Inl e | Inr t \<Rightarrow> Inr (s @ t))"

fun format_text :: "(string \<times> string) list \<Rightarrow> string list \<Rightarrow> string \<Rightarrow> error + string"
  and format_field :: "(string \<times> string) list \<Rightarrow> string list \<Rightarrow> string \<Rightarrow> string \<Rightarrow> error + string"
where
  "format_text kw args [] = Inr []"
| "format_text kw args (c # cs) =
     (if c = CHR ''{'' then
        (case cs of
           [] \<Rightarrow> Inl (ValueError ''Single { encountered in format string'')
         | d # ds \<Rightarrow>
             if d = CHR ''{'' then prepend [c] (format_text kw args ds)
             else format_field kw args [] cs)
      else if c = CHR ''}'' then
        (case cs of
           [] \<Rightarrow> Inl (ValueError ''Single } encountered in format string'')
         | d # ds \<Rightarrow>
             if d = CHR ''}'' then prepend [c] (format_text kw args ds)
             else Inl (ValueError ''Single } encountered in format string''))
      else prepend [c] (format_text kw args cs))"
| "format_field kw args name [] = Inl (ValueError ''expected } before end of string'')"
| "format_field kw args name (c # cs) =
     (if c = CHR ''}'' then
        (if name = [] then
           (case args of
              [] \<Rightarrow> Inl IndexError
            | a # as \<Rightarrow> prepend a (format_text kw as cs))
         else
           (case map_of kw name of
              None \<Rightarrow> Inl (KeyError name)
            | Some v \<Rightarrow> prepend v (format_text kw args cs)))
      else format_field kw args (name @ [c]) cs)"

definition format :: "string \<Rightarrow> string list \<Rightarrow> (string \<times> string) list \<Rightarrow> error + string" where
  "format template args kw = format_text kw args template"

section \<open>The driver's world\<close>

text \<open>
  Dictionaries are objects: two names can denote the same dictionary, and a store
  through one is seen through the other. The heap maps an address to the
  dictionary that lives there; \<open>os_environ\<close> is the address of \<open>os.environ\<close>.
  Keys are Python values, since the code takes its keys from module attributes.
\<close>

type_synonym addr = nat
type_synonym pydict = "pyval \<rightharpoonup> string"

definition os_environ :: addr where "os_environ = 0"

text \<open>
  A reply socket of the messaging library: the address it is bound to, the
  messages that peers will send to it, what it has received and sent, and whether it
  is closed. A reply socket alternates: it receives, then sends.
\<close>

record socket =
  endpoint :: string
  pending :: "string list"
  received :: "string list"
  sent :: "string list"
  closed :: bool

text \<open>A spawned process: its argument vector and the environment it was given.\<close>

record process =
  args :: "string list"
  env :: pydict

text \<open>An \<open>atexit\<close> entry: \<open>Kill p\<close> is the bound method \<open>kill\<close> of process \<open>p\<close>.\<close>

datatype exit_action = Kill nat

text \<open>
  The state of the driver process and what its surroundings decide: \<open>ephemeral i\<close> is
  the address the operating system gives the \<open>i\<close>-th socket, \<open>arrivals i\<close> the
  messages that peers send to it, \<open>popen_error argv e\<close> the error, if any, of
  spawning \<open>argv\<close> with environment \<open>e\<close>.
\<close>

record world =
  heap :: "addr \<Rightarrow> pydict"
  next_addr :: addr
  sockets :: "socket list"
  ephemeral :: "nat \<Rightarrow> string"
  arrivals :: "nat \<Rightarrow> string list"
  popen_error :: "string list \<Rightarrow> pydict \<Rightarrow> error option"
  processes :: "process list"
  atexit_registry :: "exit_action list"

text \<open>
  What the standard library and the installation fix: \<open>os.path.pathsep\<close>,
  \<open>os.path.dirname\<close>, and the \<open>__file__\<close> of bootstrap.py and of the zmq package.
\<close>

record platform =
  pathsep :: string
  dirname :: "string \<Rightarrow> string"
  bootstrap_file :: string
  zmq_file :: string

text \<open>\<open>posixpath.dirname\<close>, the \<open>os.path.dirname\<close> of a POSIX platform.\<close>

definition posix_dirname :: "string \<Rightarrow> string" where
  "posix_dirname p =
     (let head = rev (dropWhile (\<lambda>c. c \<noteq> CHR ''/'') (rev p))
      in if head \<noteq> [] \<and> \<not> list_all (\<lambda>c. c = CHR ''/'') head
         then rev (dropWhile (\<lambda>c. c = CHR ''/'') (rev head))
         else head)"

text \<open>\<open>dict(d)\<close>: a new dictionary with the entries of \<open>d\<close>, at a fresh address.\<close>

definition dict :: "addr \<Rightarrow> world \<Rightarrow> addr \<times> world" where
  "dict d w =
     (next_addr w,
      w\<lparr>heap := (heap w)(next_addr w := heap w d), next_addr := Suc (next_addr w)\<rparr>)"

text \<open>\<open>d[k] = v\<close> and \<open>d.get(k, default)\<close>.\<close>

definition setitem :: "addr \<Rightarrow> pyval \<Rightarrow> string \<Rightarrow> world \<Rightarrow> world" where
  "setitem d k v w = w\<lparr>heap := (heap w)(d := (heap w d)(k \<mapsto> v))\<rparr>"

definition get :: "addr \<Rightarrow> pyval \<Rightarrow> string \<Rightarrow> world \<Rightarrow> string" where
  "get d k dflt w = (case heap w d k of None \<Rightarrow> dflt | Some v \<Rightarrow> v)"

text \<open>
  The messaging library's \<open>recv\<close>, \<open>send\<close> and \<open>close\<close> on the socket with
  index \<open>i\<close>. \<open>recv\<close> takes the next pending message and never returns when there
  is none; operations on a closed socket, or out of the receive-send alternation,
  raise the library's error.
\<close>

definition recv :: "nat \<Rightarrow> world \<Rightarrow> string result \<times> world" where
  "recv i w =
     (if i < length (sockets w) then
        (let s = sockets w ! i in
         if closed s \<or> length (received s) \<noteq> length (sent s)
         then (Raise (UserError ''ZMQError''), w)
         else
           (case pending s of
              [] \<Rightarrow> (Hang, w)
            | m # ms \<Rightarrow>
                (Ok m, w\<lparr>sockets := (sockets w)[i := s\<lparr>pending := ms, received := received s @ [m]\<rparr>]\<rparr>)))
      else (Raise (UserError ''ZMQError''), w))"

definition send :: "nat \<Rightarrow> string \<Rightarrow> world \<Rightarrow> unit result \<times> world" where
  "send i msg w =
     (if i < length (sockets w) then
        (let s = sockets w ! i in
         if closed s \<or> length (received s) \<noteq> Suc (length (sent s))
         then (Raise (UserError ''ZMQError''), w)
         else (Ok (), w\<lparr>sockets := (sockets w)[i := s\<lparr>sent := sent s @ [msg]\<rparr>]\<rparr>))
      else (Raise (UserError ''ZMQError''), w))"

definition close :: "nat \<Rightarrow> world \<Rightarrow> unit result \<times> world" where
  "close i w =
     (if i < length (sockets w) then
        (Ok (), w\<lparr>sockets := (sockets w)[i := (sockets w ! i)\<lparr>closed := True\<rparr>]\<rparr>)
      else (Raise (UserError ''ZMQError''), w))"

text \<open>
  \<open>subprocess.Popen(argv, env=e)\<close>: the operating system spawns the process with a
  snapshot of the dictionary at \<open>e\<close>, or raises. The handle returned is the index
  of the process.
\<close>

definition Popen :: "string list \<Rightarrow> addr \<Rightarrow> world \<Rightarrow> nat result \<times> world" where
  "Popen argv e w =
     (case popen_error w argv (heap w e) of
        Some err \<Rightarrow> (Raise err, w)
      | None \<Rightarrow>
          (Ok (length (processes w)),
           w\<lparr>processes := processes w @ [\<lparr>args = argv, env = heap w e\<rparr>]\<rparr>))"

text \<open>\<open>atexit.register(f)\<close>.\<close>

definition atexit_register :: "exit_action \<Rightarrow> world \<Rightarrow> world" where
  "atexit_register a w = w\<lparr>atexit_registry := atexit_registry w @ [a]\<rparr>"

section \<open>bootstrap.py\<close>

text \<open>
  The launch configuration is an object of a class the package's user supplies; the
  launcher calls its \<open>cfgname()\<close> and \<open>popen_args()\<close>.
\<close>

record launch_config =
  cfgname :: string
  popen_args :: "string list"

definition one_up_dir :: "platform \<Rightarrow> string \<Rightarrow> string" where
  "one_up_dir pf f = dirname pf (dirname pf f)"

record ServerProc =
  popen :: nat
  sp_endpoint :: "string option"
  sp_config :: launch_config

text \<open>
  Modelled from the spec: \<open>utils.create_rep_socket_bound_to_random\<close> is not among the
  sources. The spec's \<open>create()\<close> binds a rendezvous socket to an ephemeral address
  and returns the address and the socket.
\<close>

record handshake_info =
  hi_endpoint :: string
  hi_socket :: nat

definition create_rep_socket_bound_to_random :: "world \<Rightarrow> handshake_info \<times> world" where
  "create_rep_socket_bound_to_random w =
     (let i = length (sockets w)
      in (\<lparr>hi_endpoint = ephemeral w i, hi_socket = i\<rparr>,
          w\<lparr>sockets := sockets w @
               [\<lparr>endpoint = ephemeral w i, pending = arrivals w i, received = [], sent = [],
                 closed = False\<rparr>]\<rparr>))"

text \<open>The \<open>Handshaker\<close> object; \<open>environ\<close> is a reference to a dictionary.\<close>

record Handshaker =
  hs_config :: launch_config
  hs_environ :: addr
  hs_handshake_info :: "handshake_info option"
  app_endpoint :: "string option"

definition Handshaker_init :: "launch_config \<Rightarrow> addr \<Rightarrow> Handshaker" where
  "Handshaker_init config environ =
     \<lparr>hs_config = config, hs_environ = environ, hs_handshake_info = None, app_endpoint = None\<rparr>"

text \<open>
  \<open>Handshaker.__enter__\<close>. In each assignment the right-hand side is evaluated before
  the key, and nothing is stored when the key's evaluation raises.
\<close>

definition Handshaker_enter :: "module \<Rightarrow> Handshaker \<Rightarrow> world \<Rightarrow> unit result \<times> Handshaker \<times> world" where
  "Handshaker_enter cm h w =
     (case create_rep_socket_bound_to_random w of
        (info, w1) \<Rightarrow>
          (let h1 = h\<lparr>hs_handshake_info := Some info\<rparr> in
           case getattr cm ''ENV_HANDSHAKE_ENDPOINT'' of
             Inl e \<Rightarrow> (Raise e, h1, w1)
           | Inr k1 \<Rightarrow>
               (let w2 = setitem (hs_environ h1) k1 (hi_endpoint info) w1 in
                case getattr cm ''ENV_CONFIGNAME'' of
                  Inl e \<Rightarrow> (Raise e, h1, w2)
                | Inr k2 \<Rightarrow>
                    (Ok (), h1, setitem (hs_environ h1) k2 (cfgname (hs_config h1)) w2))))"

text \<open>
  \<open>Handshaker.__exit__\<close>; \<open>exc\<close> is the exception that left the body of the
  \<open>with\<close> statement, if any. The method returns None, so that exception propagates.
\<close>

definition Handshaker_exit :: "Handshaker \<Rightarrow> error option \<Rightarrow> world \<Rightarrow> unit result \<times> Handshaker \<times> world" where
  "Handshaker_exit h exc w =
     (case exc of
        Some e \<Rightarrow> (Ok (), h, w)
      | None \<Rightarrow>
          (case hs_handshake_info h of
             None \<Rightarrow> (Raise (AttributeError ''socket''), h, w)
           | Some info \<Rightarrow>
               (case recv (hi_socket info) w of
                  (Raise e, w1) \<Rightarrow> (Raise e, h, w1)
                | (Hang, w1) \<Rightarrow> (Hang, h, w1)
                | (Ok m, w1) \<Rightarrow>
                    (let h1 = h\<lparr>app_endpoint := Some m\<rparr> in
                     case send (hi_socket info) [] w1 of
                       (Raise e, w2) \<Rightarrow> (Raise e, h1, w2)
                     | (Hang, w2) \<Rightarrow> (Hang, h1, w2)
                     | (Ok u, w2) \<Rightarrow>
                         (case close (hi_socket info) w2 of
                            (r, w3) \<Rightarrow> (r, h1, w3))))))"

text \<open>The body of the \<open>with\<close> statement of \<open>start_server_process\<close>.\<close>

definition with_body :: "platform \<Rightarrow> launch_config \<Rightarrow> addr \<Rightarrow> world \<Rightarrow> nat result \<times> world" where
  "with_body pf config e w =
     (let pythonpath = get e (StrV ''PYTHONPATH'') [] w in
      case format ''{}{sep}{}{sep}{}''
             [pythonpath, one_up_dir pf (bootstrap_file pf), one_up_dir pf (zmq_file pf)]
             [(''sep'', pathsep pf)] of
        Inl err \<Rightarrow> (Raise err, w)
      | Inr v \<Rightarrow>
          (case Popen (popen_args config) e (setitem e (StrV ''PYTHONPATH'') v w) of
             (Ok proc, w1) \<Rightarrow> (Ok proc, atexit_register (Kill proc) w1)
           | (r, w1) \<Rightarrow> (r, w1)))"

definition start_server_process :: "module \<Rightarrow> platform \<Rightarrow> launch_config \<Rightarrow> world \<Rightarrow> ServerProc result \<times> world" where
  "start_server_process cm pf config w =
     (case dict os_environ w of
        (e, w0) \<Rightarrow>
          (case Handshaker_enter cm (Handshaker_init config e) w0 of
             (Raise err, h, w1) \<Rightarrow> (Raise err, w1)
           | (Hang, h, w1) \<Rightarrow> (Hang, w1)
           | (Ok u, h, w1) \<Rightarrow>
               (case with_body pf config e w1 of
                  (Raise err, w2) \<Rightarrow>
                    (case Handshaker_exit h (Some err) w2 of
                       (Ok u, h', w3) \<Rightarrow> (Raise err, w3)
                     | (Raise err', h', w3) \<Rightarrow> (Raise err', w3)
                     | (Hang, h', w3) \<Rightarrow> (Hang, w3))
                | (Hang, w2) \<Rightarrow> (Hang, w2)
                | (Ok proc, w2) \<Rightarrow>
                    (case Handshaker_exit h None w2 of
                       (Ok u, h', w3) \<Rightarrow>
                         (Ok \<lparr>popen = proc, sp_endpoint = app_endpoint h', sp_config = config\<rparr>, w3)
                     | (Raise err, h', w3) \<Rightarrow> (Raise err, w3)
                     | (Hang, h', w3) \<Rightarrow> (Hang, w3)))))"

section \<open>testcase.py\<close>

text \<open>
  The attributes of a \<open>RemoteTestCase\<close>: those of the class (\<open>config\<close> is None or a
  configuration class, modelled by the object that instantiating it gives) and those of
  the instance. \<open>test_module\<close> is \<open>__module__\<close>, \<open>test_class\<close> is
  \<open>type(self).__name__\<close>, \<open>testMethodName\<close> is \<open>_testMethodName\<close> and
  \<open>private_testMethodName\<close> is \<open>__testMethodName\<close>, which Python stores under
  a name of its own.
\<close>

record RemoteTestCase =
  config :: "launch_config option"
  reload_test :: bool
  reload_modules :: "nat list"
  cache_client :: bool
  start_proc :: bool
  test_module :: string
  test_class :: string
  testMethodName :: "string option"
  private_testMethodName :: "string option"

text \<open>
  Modelled from the spec: client.py is not among the sources. A client is connected to
  the endpoint of a server process; a call is one request, a method name and a
  payload, answered by one reply. \<open>client_exec\<close>, the client's \<open>exec_\<close>,
  calls the method \<open>exec\<close> with a code fragment; \<open>server\<close> is what comes of
  the call: nothing, or one of the client's error conditions.
\<close>

record client =
  server_proc :: ServerProc
  requests :: "(string \<times> string) list"

definition Client :: "ServerProc \<Rightarrow> client" where
  "Client proc = \<lparr>server_proc = proc, requests = []\<rparr>"

definition client_exec :: "(string \<Rightarrow> unit result) \<Rightarrow> string \<Rightarrow> client \<Rightarrow> unit result \<times> client" where
  "client_exec server code c = (server code, c\<lparr>requests := requests c @ [(''exec'', code)]\<rparr>)"

text \<open>\<open>RemoteTestCase.create_client\<close>, with assertions enabled.\<close>

definition create_client :: "module \<Rightarrow> platform \<Rightarrow> RemoteTestCase \<Rightarrow> world \<Rightarrow> client result \<times> world" where
  "create_client cm pf cls w =
     (case config cls of
        None \<Rightarrow> (Raise (RuntimeError ''config must be set or this method must be overridden.''), w)
      | Some cfg \<Rightarrow>
          if \<not> start_proc cls
          then (Raise (AssertionError ''Not starting proc is not yet supported.''), w)
          else
            (case start_server_process cm pf cfg w of
               (Ok proc, w') \<Rightarrow> (Ok (Client proc), w')
             | (Raise e, w') \<Rightarrow> (Raise e, w')
             | (Hang, w') \<Rightarrow> (Hang, w')))"

text \<open>\<open>RemoteTestCase._wrapped_test\<close>.\<close>

definition wrapped_test :: "(string \<Rightarrow> unit result) \<Rightarrow> RemoteTestCase \<Rightarrow> client \<Rightarrow> unit result \<times> client" where
  "wrapped_test server self c =
     (let lines =
            [''import {testmodule} as {testalias}'',
             ''from dccautomation.compat import reload'']
            @ (if reload_test self then [''reload({testalias})''] else [])
            @ [''tc = {testalias}.{testcase}('' @ dquote @ ''{testfunc}'' @ dquote @ '')'']
            @ [''tc._wrapped_test_remote()''];
          teststr = join newline lines
      in case format teststr []
                [(''testmodule'', test_module self),
                 (''testalias'', replace CHR ''.'' CHR ''_'' (test_module self)),
                 (''testcase'', test_class self),
                 (''testfunc'', str (private_testMethodName self))] of
           Inl e \<Rightarrow> (Raise e, c)
         | Inr formatted_str \<Rightarrow> client_exec server formatted_str c)"

text \<open>
  The function \<open>wrapped_test\<close> that \<open>RemoteTestCase.run\<close> installs as the test
  method: it runs \<open>_wrapped_test\<close> between two assignments.
\<close>

definition run_wrapped_test ::
  "(string \<Rightarrow> unit result) \<Rightarrow> RemoteTestCase \<Rightarrow> client \<Rightarrow> unit result \<times> RemoteTestCase \<times> client" where
  "run_wrapped_test server self c =
     (let self1 = self\<lparr>private_testMethodName := testMethodName self\<rparr> in
      case wrapped_test server self1 c of
        (r, c') \<Rightarrow> (r, self1\<lparr>testMethodName := private_testMethodName self1\<rparr>, c'))"

text \<open>
  What runs on the server. The methods of a test case and the cleanups it registers
  are the test author's code: each call works on the author's state \<open>'u\<close>, may
  register cleanups with \<open>addCleanup\<close> (the only access this code has to the list of
  cleanups) and returns or raises; what it registered before raising stays
  registered. A cleanup, the triple of a function and its arguments, is named by a
  number. \<open>reload\<close> is the builtin applied to a module, likewise named by a number.
\<close>

type_synonym 'u call = "'u \<Rightarrow> error option \<times> nat list \<times> 'u"

record 'u methods =
  reload :: "nat \<Rightarrow> 'u call"
  setUp :: "'u call"
  testMethod :: "'u call"
  tearDown :: "'u call"
  cleanup_function :: "nat \<Rightarrow> 'u call"

text \<open>The calls made by \<open>_wrapped_test_remote\<close>, in the order they are made.\<close>

datatype event = Reload nat | SetUp | TestMethod | TearDown | Cleanup nat

text \<open>
  The state of a remote run: \<open>cleanups\<close> is \<open>self._cleanups\<close>, the last registered
  at the end; \<open>trace\<close> records the calls made so far.
\<close>

record 'u run_state =
  cleanups :: "nat list"
  user :: 'u
  trace :: "event list"

definition invoke :: "event \<Rightarrow> 'u call \<Rightarrow> 'u run_state \<Rightarrow> error option \<times> 'u run_state" where
  "invoke ev f s =
     (case f (user s) of
        (r, regs, u') \<Rightarrow>
          (r, s\<lparr>cleanups := cleanups s @ regs, user := u', trace := trace s @ [ev]\<rparr>))"

text \<open>\<open>for mod in self.reload_modules: reload(mod)\<close>.\<close>

fun reload_loop :: "'u methods \<Rightarrow> nat list \<Rightarrow> 'u run_state \<Rightarrow> error option \<times> 'u run_state" where
  "reload_loop ms [] s = (None, s)"
| "reload_loop ms (m # mods) s =
     (case invoke (Reload m) (reload ms m) s of
        (Some e, s') \<Rightarrow> (Some e, s')
      | (None, s') \<Rightarrow> reload_loop ms mods s')"

text \<open>The \<open>try\<close> block: \<open>setUp\<close>, then the test method.\<close>

definition try_block :: "'u methods \<Rightarrow> 'u run_state \<Rightarrow> error option \<times> 'u run_state" where
  "try_block ms s =
     (case invoke SetUp (setUp ms) s of
        (Some e, s') \<Rightarrow> (Some e, s')
      | (None, s') \<Rightarrow> invoke TestMethod (testMethod ms) s')"

text \<open>
  \<open>while self._cleanups: ... pop(-1) ... function(*args, **kwargs)\<close>. A cleanup may
  register cleanups, so the loop need not end: it runs for at most \<open>fuel\<close> rounds and
  is \<open>Hang\<close> when cleanups are left after them.
\<close>

fun cleanup_loop :: "nat \<Rightarrow> 'u methods \<Rightarrow> 'u run_state \<Rightarrow> unit result \<times> 'u run_state" where
  "cleanup_loop 0 ms s = (if cleanups s = [] then (Ok (), s) else (Hang, s))"
| "cleanup_loop (Suc fuel) ms s =
     (if cleanups s = [] then (Ok (), s)
      else
        (case invoke (Cleanup (last (cleanups s))) (cleanup_function ms (last (cleanups s)))
                (s\<lparr>cleanups := butlast (cleanups s)\<rparr>) of
           (Some e, s') \<Rightarrow> (Raise e, s')
         | (None, s') \<Rightarrow> cleanup_loop fuel ms s'))"

text \<open>The \<open>finally\<close> block: \<open>tearDown\<close>, then the loop over the cleanups.\<close>

definition finally_block :: "nat \<Rightarrow> 'u methods \<Rightarrow> 'u run_state \<Rightarrow> unit result \<times> 'u run_state" where
  "finally_block fuel ms s =
     (case invoke TearDown (tearDown ms) s of
        (Some e, s') \<Rightarrow> (Raise e, s')
      | (None, s') \<Rightarrow> cleanup_loop fuel ms s')"

text \<open>
  \<open>RemoteTestCase._wrapped_test_remote\<close>. An exception of the \<open>try\<close> block
  propagates once the \<open>finally\<close> block has completed; an exception of the
  \<open>finally\<close> block replaces it.
\<close>

definition wrapped_test_remote ::
  "nat \<Rightarrow> 'u methods \<Rightarrow> RemoteTestCase \<Rightarrow> 'u run_state \<Rightarrow> unit result \<times> 'u run_state" where
  "wrapped_test_remote fuel ms self s =
     (case reload_loop ms (reload_modules self) s of
        (Some e, s0) \<Rightarrow> (Raise e, s0)
      | (None, s0) \<Rightarrow>
          (case try_block ms s0 of
             (r1, s1) \<Rightarrow>
               (case finally_block fuel ms s1 of
                  (Ok u, s2) \<Rightarrow> ((case r1 of None \<Rightarrow> Ok () | Some e \<Rightarrow> Raise e), s2)
                | (r2, s2) \<Rightarrow> (r2, s2))))"

section \<open>Example inputs\<close>

definition posix :: platform where
  "posix = \<lparr>pathsep = '':'', dirname = posix_dirname,
            bootstrap_file = ''/opt/tools/dccautomation/bootstrap.py'',
            zmq_file = ''/usr/lib/python/zmq/__init__.py''\<rparr>"

definition maya :: launch_config where
  "maya = \<lparr>cfgname = ''maya'', popen_args = [''mayapy'', ''-m'', ''dccautomation.bootstrap'']\<rparr>"

text \<open>
  A driver whose environment has a PYTHONPATH, where spawning succeeds and the spawned
  process reports one endpoint.
\<close>

definition driver :: world where
  "driver =
     \<lparr>heap = (\<lambda>a. if a = os_environ then [StrV ''PYTHONPATH'' \<mapsto> ''/home/me/lib''] else Map.empty),
      next_addr = 1,
      sockets = [],
      ephemeral = (\<lambda>i. ''tcp://127.0.0.1:50000''),
      arrivals = (\<lambda>i. [''tcp://127.0.0.1:50001'']),
      popen_error = (\<lambda>argv e. None),
      processes = [],
      atexit_registry = []\<rparr>"

text \<open>A module like \<open>common\<close> that also binds the name \<open>__enter__\<close> reads.\<close>

definition common_with_endpoint :: module where
  "common_with_endpoint =
     common @ [(''ENV_HANDSHAKE_ENDPOINT'', StrV ''DCCAUTO_HANDSHAKE_ENDPOINT'')]"

definition my_test :: RemoteTestCase where
  "my_test =
     \<lparr>config = Some maya, reload_test = True, reload_modules = [], cache_client = True,
      start_proc = True, test_module = ''pkg.tests.test_scene'', test_class = ''SceneTests'',
      testMethodName = Some ''test_open'', private_testMethodName = None\<rparr>"

definition connected :: client where
  "connected =
     Client \<lparr>popen = 0, sp_endpoint = Some ''tcp://127.0.0.1:50001'', sp_config = maya\<rparr>"

definition returns :: "'u call" where
  "returns u = (None, [], u)"

definition raises :: "string \<Rightarrow> 'u call" where
  "raises msg u = (Some (UserError msg), [], u)"

definition registers :: "nat list \<Rightarrow> 'u call" where
  "registers cs u = (None, cs, u)"

definition fresh :: "unit run_state" where
  "fresh = \<lparr>cleanups = [], user = (), trace = []\<rparr>"


text \<open>
  \<open>setUp\<close> registers the cleanups 0 and 1, the test method registers 2 and then
  raises.
\<close>

definition body_raises :: "unit methods" where
  "body_raises =
     \<lparr>reload = (\<lambda>m. returns), setUp = registers [0, 1],
      testMethod = (\<lambda>u. (Some (UserError ''body''), [2], u)), tearDown = returns,
      cleanup_function = (\<lambda>c. returns)\<rparr>"

text \<open>Reloading a module raises.\<close>

definition reload_raises :: "unit methods" where
  "reload_raises =
     \<lparr>reload = (\<lambda>m. raises ''reload''), setUp = returns, testMethod = returns,
      tearDown = returns, cleanup_function = (\<lambda>c. returns)\<rparr>"

section \<open>Status codes\<close>

text \<open>
  Claim C8. The protocol module defines exactly three status codes, SUCCESS,
  INVALID_METHOD and UNHANDLED_ERROR, and their numeric values are pairwise distinct:
  a status value names at most one of the three outcomes.
\<close>

theorem C8_status_codes_three_distinct:
  "status_codes common =
     [(''SUCCESS'', SUCCESS), (''INVALID_METHOD'', INVALID_METHOD),
      (''UNHANDLED_ERROR'', UNHANDLED_ERROR)]
   \<and> distinct (map snd (status_codes common))
   \<and> distinct (map fst (status_codes common))
   \<and> SUCCESS \<noteq> INVALID_METHOD \<and> SUCCESS \<noteq> UNHANDLED_ERROR
   \<and> INVALID_METHOD \<noteq> UNHANDLED_ERROR"
  by (simp add: common_def SUCCESS_def INVALID_METHOD_def UNHANDLED_ERROR_def)

section \<open>The remote entry point: order of the calls\<close>

lemma invoke_trace: "invoke ev f s = (r, s') \<Longrightarrow> trace s' = trace s @ [ev]"
  by (auto simp: invoke_def split: prod.splits)


text \<open>Whatever the cleanups do, the loop adds only calls of cleanups to the trace.\<close>

lemma cleanup_loop_trace:
  "\<exists>post. trace (snd (cleanup_loop n ms s)) = trace s @ map Cleanup post"
proof (induction n arbitrary: s)
  case 0
  show ?case by (auto intro: exI[of _ "[]"])
next
  case (Suc n)
  show ?case
  proof (cases "cleanups s = []")
    case True
    then show ?thesis by (auto intro: exI[of _ "[]"])
  next
    case False
    let ?c = "last (cleanups s)"
    obtain r s1 where inv:
      "invoke (Cleanup ?c) (cleanup_function ms ?c) (s\<lparr>cleanups := butlast (cleanups s)\<rparr>) = (r, s1)"
      by (metis surj_pair)
    then have t1: "trace s1 = trace s @ [Cleanup ?c]"
      by (auto dest: invoke_trace)
    show ?thesis
    proof (cases r)
      case None
      from Suc.IH[of s1] obtain post where
        "trace (snd (cleanup_loop n ms s1)) = trace s1 @ map Cleanup post"
        by blast
      then have "trace (snd (cleanup_loop (Suc n) ms s)) = trace s @ map Cleanup (?c # post)"
        using False inv None t1 by simp
      then show ?thesis by blast
    next
      case (Some e)
      then have "trace (snd (cleanup_loop (Suc n) ms s)) = trace s @ map Cleanup [?c]"
        using False inv t1 by simp
      then show ?thesis by blast
    qed
  qed
qed

lemma reload_loop_trace:
  "reload_loop ms mods s = (None, s') \<Longrightarrow> trace s' = trace s @ map Reload mods"
proof (induction mods arbitrary: s)
  case Nil
  then show ?case by simp
next
  case (Cons m mods)
  obtain r s1 where inv: "invoke (Reload m) (reload ms m) s = (r, s1)"
    by (metis surj_pair)
  with Cons.prems have r: "r = None" and rest: "reload_loop ms mods s1 = (None, s')"
    by (auto split: option.splits)
  from inv have "trace s1 = trace s @ [Reload m]"
    by (rule invoke_trace)
  with Cons.IH[OF rest] show ?case by simp
qed

text \<open>
  The \<open>try\<close> block calls \<open>setUp\<close>, and the test method exactly when \<open>setUp\<close>
  returned.
\<close>

lemma try_block_trace:
  "trace (snd (try_block ms s)) =
     trace s @ (if fst (setUp ms (user s)) = None then [SetUp, TestMethod] else [SetUp])"
proof -
  obtain r s1 where a: "invoke SetUp (setUp ms) s = (r, s1)"
    by (metis surj_pair)
  obtain r' s2 where b: "invoke TestMethod (testMethod ms) s1 = (r', s2)"
    by (metis surj_pair)
  from a have ta: "trace s1 = trace s @ [SetUp]" by (rule invoke_trace)
  from b have tb: "trace s2 = trace s1 @ [TestMethod]" by (rule invoke_trace)
  from a have r: "r = fst (setUp ms (user s))"
    by (auto simp: invoke_def split: prod.splits)
  show ?thesis
    by (cases r) (use r in \<open>simp_all add: try_block_def a b ta tb\<close>)
qed

lemma finally_block_trace:
  "\<exists>post. trace (snd (finally_block n ms s)) = trace s @ TearDown # map Cleanup post"
proof -
  obtain r s1 where a: "invoke TearDown (tearDown ms) s = (r, s1)"
    by (metis surj_pair)
  then have ta: "trace s1 = trace s @ [TearDown]" by (rule invoke_trace)
  show ?thesis
  proof (cases r)
    case None
    obtain post where "trace (snd (cleanup_loop n ms s1)) = trace s1 @ map Cleanup post"
      using cleanup_loop_trace by blast
    then have "trace (snd (finally_block n ms s)) = trace s @ TearDown # map Cleanup post"
      by (simp add: finally_block_def a None ta)
    then show ?thesis by blast
  next
    case (Some e)
    then have "trace (snd (finally_block n ms s)) = trace s @ TearDown # map Cleanup []"
      by (simp add: finally_block_def a ta)
    then show ?thesis by blast
  qed
qed

lemma wrapped_after_reload:
  "reload_loop ms (reload_modules self) s = (None, s0) \<Longrightarrow>
   snd (wrapped_test_remote n ms self s) = snd (finally_block n ms (snd (try_block ms s0)))"
  by (simp add: wrapped_test_remote_def split: prod.splits result.splits)




text \<open>
  Claim C4, as amended. When the modules reload, the calls after the reloads are
  \<open>setUp\<close>, then the test method exactly when \<open>setUp\<close> returned, then
  \<open>tearDown\<close>, once, then calls of cleanups only. So \<open>tearDown\<close> is called
  after \<open>setUp\<close> and, whenever the test body ran, after the test body, whether
  \<open>setUp\<close> and the test method returned or raised, for any number of rounds of
  the cleanup loop.
\<close>

theorem C4_teardown_called_after_body_when_reloads_return:
  assumes "reload_loop ms (reload_modules self) s = (None, s0)"
  shows "\<exists>post.
           trace (snd (wrapped_test_remote fuel ms self s)) =
             trace s @ map Reload (reload_modules self)
             @ (if fst (setUp ms (user s0)) = None then [SetUp, TestMethod] else [SetUp])
             @ TearDown # map Cleanup post"
proof -
  have t0: "trace s0 = trace s @ map Reload (reload_modules self)"
    using assms by (rule reload_loop_trace)
  obtain post where post:
    "trace (snd (finally_block fuel ms (snd (try_block ms s0)))) =
       trace (snd (try_block ms s0)) @ TearDown # map Cleanup post"
    using finally_block_trace by blast
  have "trace (snd (wrapped_test_remote fuel ms self s)) =
          trace s @ map Reload (reload_modules self)
          @ (if fst (setUp ms (user s0)) = None then [SetUp, TestMethod] else [SetUp])
          @ TearDown # map Cleanup post"
    by (simp add: wrapped_after_reload[OF assms] post try_block_trace t0)
  then show ?thesis by blast
qed

text \<open>
  The theorem at two runs after the reload of module 7. In the first \<open>setUp\<close>
  returns and the test method raises: \<open>tearDown\<close> follows the test method. In the
  second \<open>setUp\<close> raises: the test method is not called and \<open>tearDown\<close> follows
  \<open>setUp\<close>.
\<close>

theorem C4_teardown_called_after_body_witness:
  "reload_loop body_raises (reload_modules (my_test\<lparr>reload_modules := [7]\<rparr>)) fresh =
     (None, \<lparr>cleanups = [], user = (), trace = [Reload 7]\<rparr>)
   \<and> fst (testMethod body_raises ()) = Some (UserError ''body'')
   \<and> (\<exists>post.
         trace (snd (wrapped_test_remote 3 body_raises (my_test\<lparr>reload_modules := [7]\<rparr>) fresh)) =
           [Reload 7, SetUp, TestMethod, TearDown] @ map Cleanup post)
   \<and> (\<exists>post.
         trace (snd (wrapped_test_remote 3 (body_raises\<lparr>setUp := raises ''setup''\<rparr>)
                       (my_test\<lparr>reload_modules := [7]\<rparr>) fresh)) =
           [Reload 7, SetUp, TearDown] @ map Cleanup post)"
proof -
  let ?self = "my_test\<lparr>reload_modules := [7]\<rparr>"
  let ?ms = "body_raises\<lparr>setUp := raises ''setup''\<rparr>"
  let ?s0 = "\<lparr>cleanups = [], user = (), trace = [Reload 7]\<rparr>"
  have a: "reload_loop body_raises (reload_modules ?self) fresh = (None, ?s0)"
    by (simp add: body_raises_def fresh_def invoke_def returns_def)
  have b: "reload_loop ?ms (reload_modules ?self) fresh = (None, ?s0)"
    by (simp add: body_raises_def fresh_def invoke_def returns_def)
  have c: "fst (testMethod body_raises ()) = Some (UserError ''body'')"
    by (simp add: body_raises_def)
  have d: "fst (setUp body_raises (user ?s0)) = None"
    by (simp add: body_raises_def registers_def)
  have e: "fst (setUp ?ms (user ?s0)) \<noteq> None"
    by (simp add: raises_def)
  from C4_teardown_called_after_body_when_reloads_return[OF a, of 3] d
  have first: "\<exists>post.
         trace (snd (wrapped_test_remote 3 body_raises ?self fresh)) =
           [Reload 7, SetUp, TestMethod, TearDown] @ map Cleanup post"
    by (simp add: fresh_def)
  from C4_teardown_called_after_body_when_reloads_return[OF b, of 3] e
  have second: "\<exists>post.
         trace (snd (wrapped_test_remote 3 ?ms ?self fresh)) =
           [Reload 7, SetUp, TearDown] @ map Cleanup post"
    by (simp add: fresh_def raises_def)
  from a c first second show ?thesis by blast
qed

text \<open>
  Claim C4 as stated fails: when reloading a module of \<open>reload_modules\<close> raises,
  the run ends there, and neither \<open>setUp\<close>, the test method nor \<open>tearDown\<close> is
  called.
\<close>

theorem C4_reload_raises_counterexample:
  "wrapped_test_remote 3 reload_raises (my_test\<lparr>reload_modules := [7]\<rparr>) fresh =
     (Raise (UserError ''reload''), \<lparr>cleanups = [], user = (), trace = [Reload 7]\<rparr>)"
  by (simp add: wrapped_test_remote_def reload_raises_def my_test_def fresh_def invoke_def
      raises_def)

section \<open>The request of a test invocation\<close>

text \<open>
  Claim C5. A test invocation, the function that \<open>run\<close> installs as the test method,
  adds exactly one request to those the client has issued: a call of \<open>exec\<close> whose
  code fragment imports the test's module under an alias, imports \<open>reload\<close>, reloads
  the module if and only if \<open>reload_test\<close> is true, instantiates the test case class
  by its name with the name of the current test method, and calls
  \<open>_wrapped_test_remote\<close> on the instance, one statement a line in this order. This
  holds whatever comes of the call.
\<close>

theorem C5_one_exec_request_with_the_test_fragment:
  "requests (snd (snd (run_wrapped_test server self c))) =
     requests c @
       [(''exec'',
         ''import '' @ test_module self @ '' as ''
           @ replace CHR ''.'' CHR ''_'' (test_module self) @ newline
         @ ''from dccautomation.compat import reload'' @ newline
         @ (if reload_test self
            then ''reload('' @ replace CHR ''.'' CHR ''_'' (test_module self) @ '')'' @ newline
            else [])
         @ ''tc = '' @ replace CHR ''.'' CHR ''_'' (test_module self) @ ''.'' @ test_class self
           @ ''('' @ dquote @ str (testMethodName self) @ dquote @ '')'' @ newline
         @ ''tc._wrapped_test_remote()'')]"
  by (simp add: run_wrapped_test_def wrapped_test_def client_exec_def format_def prepend_def
      newline_def dquote_def)

text \<open>
  The theorem at the test \<open>test_open\<close> of the class \<open>SceneTests\<close> in the module
  \<open>pkg.tests.test_scene\<close>, with and without \<open>reload_test\<close>, on a server that replies
  with an error.
\<close>

theorem C5_one_exec_request_witness:
  "requests (snd (snd (run_wrapped_test (\<lambda>code. Raise (UserError ''UnhandledError'')) my_test connected))) =
     [(''exec'',
       ''import pkg.tests.test_scene as pkg_tests_test_scene'' @ newline
       @ ''from dccautomation.compat import reload'' @ newline
       @ ''reload(pkg_tests_test_scene)'' @ newline
       @ ''tc = pkg_tests_test_scene.SceneTests('' @ dquote @ ''test_open'' @ dquote @ '')'' @ newline
       @ ''tc._wrapped_test_remote()'')]
   \<and> requests (snd (snd (run_wrapped_test (\<lambda>code. Ok ()) (my_test\<lparr>reload_test := False\<rparr>) connected))) =
     [(''exec'',
       ''import pkg.tests.test_scene as pkg_tests_test_scene'' @ newline
       @ ''from dccautomation.compat import reload'' @ newline
       @ ''tc = pkg_tests_test_scene.SceneTests('' @ dquote @ ''test_open'' @ dquote @ '')'' @ newline
       @ ''tc._wrapped_test_remote()'')]"
  using C5_one_exec_request_with_the_test_fragment
          [of "\<lambda>code. Raise (UserError ''UnhandledError'')" my_test connected]
        C5_one_exec_request_with_the_test_fragment
          [of "\<lambda>code. Ok ()" "my_test\<lparr>reload_test := False\<rparr>" connected]
  by (simp add: my_test_def connected_def Client_def replace_def str_def)

section \<open>Launching: the name that common.py does not bind\<close>

text \<open>
  \<open>Handshaker.__enter__\<close> reads \<open>common.ENV_HANDSHAKE_ENDPOINT\<close>; common.py binds
  \<open>ENV_HANDSHAKE\<close> and no name \<open>ENV_HANDSHAKE_ENDPOINT\<close>.
\<close>

lemma getattr_common_endpoint:
  "getattr common ''ENV_HANDSHAKE_ENDPOINT'' = Inl (AttributeError ''ENV_HANDSHAKE_ENDPOINT'')"
  by (simp add: getattr_def common_def)

text \<open>
  So every launch, for every configuration and every state of the driver, ends in
  \<open>__enter__\<close> with an AttributeError: the environment has been copied and the
  rendezvous socket created, and nothing else has happened.
\<close>

lemma start_server_process_common:
  "start_server_process common pf cfg w =
     (Raise (AttributeError ''ENV_HANDSHAKE_ENDPOINT''),
      w\<lparr>heap := (heap w)(next_addr w := heap w os_environ),
        next_addr := Suc (next_addr w),
        sockets := sockets w @
          [\<lparr>endpoint = ephemeral w (length (sockets w)),
            pending = arrivals w (length (sockets w)),
            received = [], sent = [], closed = False\<rparr>]\<rparr>)"
  by (simp add: start_server_process_def dict_def Handshaker_enter_def Handshaker_init_def
      create_rep_socket_bound_to_random_def getattr_common_endpoint Let_def)

text \<open>
  Claim C2 (the code differs). The launch of the configuration \<open>maya\<close> from the
  driver \<open>driver\<close> raises AttributeError in \<open>__enter__\<close>: the copy of the
  environment, at address 1, holds the driver's entries and neither the handshake
  address nor the configuration name, and no process has been spawned.
\<close>

theorem C2_launch_raises_before_adding_entries:
  "fst (start_server_process common posix maya driver) =
     Raise (AttributeError ''ENV_HANDSHAKE_ENDPOINT'')
   \<and> heap (snd (start_server_process common posix maya driver)) 1 = heap driver os_environ
   \<and> heap (snd (start_server_process common posix maya driver)) 1 (StrV ENV_HANDSHAKE) = None
   \<and> heap (snd (start_server_process common posix maya driver)) 1 (StrV ENV_CONFIGNAME) = None
   \<and> processes (snd (start_server_process common posix maya driver)) = []"
  by (simp add: start_server_process_common driver_def os_environ_def ENV_HANDSHAKE_def
      ENV_CONFIGNAME_def)

text \<open>
  Claim C6 (the code differs). In the same launch no process is spawned, so no
  process has a PYTHONPATH extended by the two directories; the copy of the
  environment still has the driver's PYTHONPATH.
\<close>

theorem C6_launch_raises_before_pythonpath:
  "processes (snd (start_server_process common posix maya driver)) = []
   \<and> heap (snd (start_server_process common posix maya driver)) 1 (StrV ''PYTHONPATH'') =
       Some ''/home/me/lib''"
  by (simp add: start_server_process_common driver_def os_environ_def)

text \<open>
  Claim C7 (the code differs). In the same launch nothing is registered with
  \<open>atexit\<close> and the call does not return a \<open>ServerProc\<close>.
\<close>

theorem C7_launch_raises_before_registering_kill:
  "atexit_registry (snd (start_server_process common posix maya driver)) = []
   \<and> fst (start_server_process common posix maya driver) =
       Raise (AttributeError ''ENV_HANDSHAKE_ENDPOINT'')"
  by (simp add: start_server_process_common driver_def)

section \<open>Launching with the name bound\<close>

text \<open>
  What the launcher does in a module that binds both names: when spawning succeeds
  and a message arrives on the rendezvous socket, the spawned process gets the copy
  of the environment with the two entries and the extended PYTHONPATH, its killing is
  registered, the socket receives that one message, acknowledges with the empty
  message and is closed, and the handle holds the process, the message and the
  configuration.
\<close>

lemma start_server_process_bound:
  assumes k1: "getattr cm ''ENV_HANDSHAKE_ENDPOINT'' = Inr k1"
    and k2: "getattr cm ''ENV_CONFIGNAME'' = Inr k2"
    and e1: "e1 = (heap w os_environ)(k1 \<mapsto> ephemeral w (length (sockets w)), k2 \<mapsto> cfgname cfg)"
    and e2: "e2 = e1(StrV ''PYTHONPATH'' \<mapsto>
                   (case e1 (StrV ''PYTHONPATH'') of None \<Rightarrow> [] | Some v \<Rightarrow> v)
                   @ pathsep pf @ one_up_dir pf (bootstrap_file pf)
                   @ pathsep pf @ one_up_dir pf (zmq_file pf))"
    and spawn: "popen_error w (popen_args cfg) e2 = None"
    and msg: "arrivals w (length (sockets w)) = m # rest"
  shows "start_server_process cm pf cfg w =
           (Ok \<lparr>popen = length (processes w), sp_endpoint = Some m, sp_config = cfg\<rparr>,
            w\<lparr>heap := (heap w)(next_addr w := e2),
              next_addr := Suc (next_addr w),
              sockets := sockets w @
                [\<lparr>endpoint = ephemeral w (length (sockets w)), pending = rest,
                  received = [m], sent = [[]], closed = True\<rparr>],
              processes := processes w @ [\<lparr>args = popen_args cfg, env = e2\<rparr>],
              atexit_registry := atexit_registry w @ [Kill (length (processes w))]\<rparr>)"
proof -
  let ?i = "length (sockets w)"
  let ?sock = "\<lparr>endpoint = ephemeral w ?i, pending = arrivals w ?i, received = [], sent = [],
                closed = False\<rparr>"
  let ?h = "\<lparr>hs_config = cfg, hs_environ = next_addr w,
             hs_handshake_info = Some \<lparr>hi_endpoint = ephemeral w ?i, hi_socket = ?i\<rparr>,
             app_endpoint = None\<rparr>"
  let ?w0 = "w\<lparr>heap := (heap w)(next_addr w := heap w os_environ),
               next_addr := Suc (next_addr w)\<rparr>"
  let ?w1 = "w\<lparr>heap := (heap w)(next_addr w := e1), next_addr := Suc (next_addr w),
               sockets := sockets w @ [?sock]\<rparr>"
  let ?w2 = "w\<lparr>heap := (heap w)(next_addr w := e2), next_addr := Suc (next_addr w),
               sockets := sockets w @ [?sock],
               processes := processes w @ [\<lparr>args = popen_args cfg, env = e2\<rparr>],
               atexit_registry := atexit_registry w @ [Kill (length (processes w))]\<rparr>"
  let ?w3 = "w\<lparr>heap := (heap w)(next_addr w := e2), next_addr := Suc (next_addr w),
               sockets := sockets w @
                 [\<lparr>endpoint = ephemeral w ?i, pending = rest, received = [m], sent = [[]],
                   closed = True\<rparr>],
               processes := processes w @ [\<lparr>args = popen_args cfg, env = e2\<rparr>],
               atexit_registry := atexit_registry w @ [Kill (length (processes w))]\<rparr>"
  have copy: "dict os_environ w = (next_addr w, ?w0)"
    by (simp add: dict_def)
  have enter: "Handshaker_enter cm (Handshaker_init cfg (next_addr w)) ?w0 = (Ok (), ?h, ?w1)"
    by (simp add: Handshaker_enter_def Handshaker_init_def create_rep_socket_bound_to_random_def
        Let_def k1 k2 setitem_def e1)
  have body: "with_body pf cfg (next_addr w) ?w1 = (Ok (length (processes w)), ?w2)"
    by (simp add: with_body_def get_def format_def prepend_def setitem_def Popen_def
        atexit_register_def Let_def e2 spawn[unfolded e2])
  have exit: "Handshaker_exit ?h None ?w2 = (Ok (), ?h\<lparr>app_endpoint := Some m\<rparr>, ?w3)"
    by (simp add: Handshaker_exit_def recv_def send_def close_def msg nth_append Let_def)
  show ?thesis
    by (simp add: start_server_process_def copy enter body exit)
qed

section \<open>The driver's own environment\<close>

lemma Handshaker_enter_heap:
  "Handshaker_enter cm h w = (r, h', w') \<Longrightarrow> a \<noteq> hs_environ h \<Longrightarrow> heap w' a = heap w a"
  by (auto simp: Handshaker_enter_def create_rep_socket_bound_to_random_def Let_def setitem_def
      split: sum.splits)

lemma Handshaker_exit_heap:
  "Handshaker_exit h exc w = (r, h', w') \<Longrightarrow> heap w' = heap w"
  by (auto simp: Handshaker_exit_def recv_def send_def close_def Let_def
      split: option.splits if_splits list.splits prod.splits result.splits)

lemma with_body_heap:
  "with_body pf cfg e w = (r, w') \<Longrightarrow> a \<noteq> e \<Longrightarrow> heap w' a = heap w a"
  by (auto simp: with_body_def Popen_def atexit_register_def setitem_def Let_def
      split: sum.splits option.splits prod.splits result.splits)

text \<open>
  Claim C9. In a driver whose \<open>os.environ\<close> is an allocated dictionary, a launch
  leaves \<open>os.environ\<close> as it was, whether it returns, raises or never returns, and
  whatever names the module \<open>common\<close> binds: every store of the launcher goes to
  the dictionary it allocated for the spawned process.
\<close>

theorem C9_launch_leaves_os_environ_unchanged:
  assumes "os_environ < next_addr w"
  shows "heap (snd (start_server_process cm pf cfg w)) os_environ = heap w os_environ"
proof -
  let ?e = "next_addr w"
  let ?w0 = "w\<lparr>heap := (heap w)(?e := heap w os_environ), next_addr := Suc ?e\<rparr>"
  have ne: "os_environ \<noteq> ?e"
    using assms by simp
  have copy: "dict os_environ w = (?e, ?w0)"
    by (simp add: dict_def)
  have h0: "heap ?w0 os_environ = heap w os_environ"
    using ne by simp
  obtain r1 h1 w1 where enter:
    "Handshaker_enter cm (Handshaker_init cfg ?e) ?w0 = (r1, h1, w1)"
    by (metis prod_cases3)
  have h1: "heap w1 os_environ = heap w os_environ"
    using Handshaker_enter_heap[OF enter, of os_environ] ne h0
    by (simp add: Handshaker_init_def)
  obtain r2 w2 where body: "with_body pf cfg ?e w1 = (r2, w2)"
    by (metis surj_pair)
  have h2: "heap w2 os_environ = heap w os_environ"
    using with_body_heap[OF body, of os_environ] ne h1 by simp
  obtain r3 h3 w3 where exit: "Handshaker_exit h1 (case r2 of Raise err \<Rightarrow> Some err | _ \<Rightarrow> None) w2 = (r3, h3, w3)"
    by (metis prod_cases3)
  have h3: "heap w3 os_environ = heap w os_environ"
    using Handshaker_exit_heap[OF exit] h2 by simp
  show ?thesis
    using h1 h2 h3 exit
    by (cases r1; cases r2; cases r3)
       (simp_all add: start_server_process_def copy enter body)
qed

text \<open>
  The theorem at the launch of \<open>maya\<close> from \<open>driver\<close>, in \<open>common\<close> and in a
  module that binds the name: there the process is spawned with the two entries in
  its environment, and \<open>os.environ\<close> has neither.
\<close>

theorem C9_launch_leaves_os_environ_unchanged_witness:
  "os_environ < next_addr driver
   \<and> heap (snd (start_server_process common posix maya driver)) os_environ = heap driver os_environ
   \<and> heap (snd (start_server_process common_with_endpoint posix maya driver)) os_environ =
       heap driver os_environ
   \<and> heap driver os_environ (StrV ''DCCAUTO_CONFIGNAME'') = None
   \<and> heap driver os_environ (StrV ''DCCAUTO_HANDSHAKE_ENDPOINT'') = None
   \<and> heap driver os_environ (StrV ''PYTHONPATH'') = Some ''/home/me/lib''"
proof -
  have h: "os_environ < next_addr driver"
    by (simp add: driver_def os_environ_def)
  have "heap driver os_environ (StrV ''DCCAUTO_CONFIGNAME'') = None"
       "heap driver os_environ (StrV ''DCCAUTO_HANDSHAKE_ENDPOINT'') = None"
       "heap driver os_environ (StrV ''PYTHONPATH'') = Some ''/home/me/lib''"
    by (simp_all add: driver_def)
  with h C9_launch_leaves_os_environ_unchanged[OF h, of common posix maya]
       C9_launch_leaves_os_environ_unchanged[OF h, of common_with_endpoint posix maya]
  show ?thesis by simp
qed

text \<open>
  The launch of \<open>maya\<close> from \<open>driver\<close> in the module that binds the name: it
  returns the handle, and the environment of the spawned process has the two
  entries and the extended PYTHONPATH.
\<close>

lemma launch_maya_with_endpoint:
  "fst (start_server_process common_with_endpoint posix maya driver) =
     Ok \<lparr>popen = 0, sp_endpoint = Some ''tcp://127.0.0.1:50001'', sp_config = maya\<rparr>
   \<and> map args (processes (snd (start_server_process common_with_endpoint posix maya driver))) =
       [popen_args maya]
   \<and> map (\<lambda>p. env p (StrV ''DCCAUTO_HANDSHAKE_ENDPOINT''))
         (processes (snd (start_server_process common_with_endpoint posix maya driver))) =
       [Some ''tcp://127.0.0.1:50000'']
   \<and> map (\<lambda>p. env p (StrV ''DCCAUTO_CONFIGNAME''))
         (processes (snd (start_server_process common_with_endpoint posix maya driver))) =
       [Some ''maya'']
   \<and> map (\<lambda>p. env p (StrV ''PYTHONPATH''))
         (processes (snd (start_server_process common_with_endpoint posix maya driver))) =
       [Some ''/home/me/lib:/opt/tools:/usr/lib/python'']"
proof -
  have k1: "getattr common_with_endpoint ''ENV_HANDSHAKE_ENDPOINT'' =
              Inr (StrV ''DCCAUTO_HANDSHAKE_ENDPOINT'')"
    by (simp add: getattr_def common_with_endpoint_def common_def)
  have k2: "getattr common_with_endpoint ''ENV_CONFIGNAME'' = Inr (StrV ''DCCAUTO_CONFIGNAME'')"
    by (simp add: getattr_def common_with_endpoint_def common_def ENV_CONFIGNAME_def)
  have spawn: "popen_error driver (popen_args maya) e = None" for e
    by (simp add: driver_def)
  have msg: "arrivals driver (length (sockets driver)) = ''tcp://127.0.0.1:50001'' # []"
    by (simp add: driver_def)
  have dirs: "one_up_dir posix (bootstrap_file posix) = ''/opt/tools''"
             "one_up_dir posix (zmq_file posix) = ''/usr/lib/python''"
    by (simp_all add: one_up_dir_def posix_def posix_dirname_def)
  show ?thesis
    using start_server_process_bound[OF k1 k2 refl refl spawn msg, of posix]
    by (simp add: dirs) (simp add: driver_def maya_def posix_def)
qed

section \<open>Creating the client\<close>

text \<open>
  Claim C10. \<open>create_client\<close> raises RuntimeError when \<open>config\<close> is None, and fails
  its assertion when \<open>config\<close> is set and \<open>start_proc\<close> is false; in both cases the
  driver is left as it was, so nothing has been spawned. Hence the list of spawned
  processes changes only when \<open>config\<close> is set and \<open>start_proc\<close> is true. This
  holds whatever names the module \<open>common\<close> binds.
\<close>

theorem C10_create_client_checks_before_spawning:
  "(config cls = None \<longrightarrow>
      create_client cm pf cls w =
        (Raise (RuntimeError ''config must be set or this method must be overridden.''), w))
   \<and> (config cls \<noteq> None \<and> \<not> start_proc cls \<longrightarrow>
      create_client cm pf cls w =
        (Raise (AssertionError ''Not starting proc is not yet supported.''), w))
   \<and> (processes (snd (create_client cm pf cls w)) \<noteq> processes w \<longrightarrow>
      config cls \<noteq> None \<and> start_proc cls)"
  by (cases "config cls") (auto simp: create_client_def)

text \<open>
  The theorem at a test case with no \<open>config\<close>, at one with \<open>start_proc\<close> false,
  and at one with both set in the module that binds the name, where a process is
  spawned.
\<close>

theorem C10_create_client_checks_witness:
  "create_client common posix (my_test\<lparr>config := None, start_proc := False\<rparr>) driver =
     (Raise (RuntimeError ''config must be set or this method must be overridden.''), driver)
   \<and> create_client common posix (my_test\<lparr>start_proc := False\<rparr>) driver =
     (Raise (AssertionError ''Not starting proc is not yet supported.''), driver)
   \<and> processes (snd (create_client common_with_endpoint posix my_test driver)) \<noteq> processes driver
   \<and> config my_test \<noteq> None \<and> start_proc my_test"
proof -
  have spawned: "processes (snd (create_client common_with_endpoint posix my_test driver))
                   \<noteq> processes driver"
    using launch_maya_with_endpoint
    by (auto simp: create_client_def my_test_def driver_def split: prod.splits result.splits)
  show ?thesis
    using spawned
      C10_create_client_checks_before_spawning
        [of "my_test\<lparr>config := None, start_proc := False\<rparr>" common posix driver]
      C10_create_client_checks_before_spawning
        [of "my_test\<lparr>start_proc := False\<rparr>" common posix driver]
      C10_create_client_checks_before_spawning
        [of my_test common_with_endpoint posix driver]
    by (simp add: my_test_def)
qed

section \<open>The handshake of a launch that returns\<close>






text \<open>
  In \<open>common\<close> as common.py builds it, the theorem's hypothesis is never met: no
  launch returns a handle.
\<close>

lemma no_launch_returns_in_common:
  "fst (start_server_process common pf cfg w) \<noteq> Ok handle"
  by (simp add: start_server_process_common)

end
